theory Spec2Isabelle
  imports Main "HOL-Library.Word"
begin

section \<open>The single-header test harness \<open>inc/ctest/ctest.h\<close>\<close>

text \<open>
  The header is a set of macros around three C functions. The model keeps the macro
  layer: a macro becomes a HOL function of its arguments and of the predefined
  identifiers it reads (\<open>__FILE__\<close>, \<open>__LINE__\<close>, \<open>__FUNCTION__\<close>), and stringification
  (\<open>#x\<close>) is modelled by carrying the source text of an expression next to its value.
\<close>

subsection \<open>C data\<close>

text \<open>C's \<open>int\<close>: 32 bits, read as two's complement by \<open>sint\<close>.\<close>

type_synonym c_int = "32 word"

text \<open>The two streams the header writes to.\<close>

datatype stream = Stdout | Stderr

text \<open>
  A variadic argument of a \<open>printf\<close>-family call: an integer (\<open>%d\<close>, \<open>%ld\<close>) or a C string
  (\<open>%s\<close>).
\<close>

datatype arg = AInt int | AStr string

text \<open>
  One call \<open>fprintf(stream, format, args...)\<close> (\<open>printf\<close> is \<open>fprintf(stdout, ...)\<close>,
  \<open>vfprintf\<close> the same call with the argument list passed on).
\<close>

datatype call = Fprintf stream string "arg list"

text \<open>
  The state of the process outside the header's own local variables: the calls written so
  far, oldest first, and the state of the surrounding program (its globals), which the
  header never names.
\<close>

record 'u world =
  out :: "call list"
  user :: 'u

text \<open>
  A C expression handed to a macro: its source text (what \<open>#condition\<close> yields) and its
  value in the current program state.
\<close>

record ('u, 'a) cexpr =
  src :: string
  val :: "'u \<Rightarrow> 'a"

subsection \<open>Constants of the header\<close>

definition NL :: string where
  "NL = [CHR 0x0A]"

definition ESC :: string where
  "ESC = [CHR 0x1B]"

definition CTEST_GRY :: string where
  "CTEST_GRY = ESC @ ''[0;37m''"

definition CTEST_GRYB :: string where
  "CTEST_GRYB = ESC @ ''[1;37m''"

definition CTEST_RED :: string where
  "CTEST_RED = ESC @ ''[1;31m''"

definition CTEST_GRN :: string where
  "CTEST_GRN = ESC @ ''[1;32m''"

definition CTEST_RST :: string where
  "CTEST_RST = ESC @ ''[0m''"

text \<open>The non-ASCII markers of the format strings, byte for byte as the header has them.\<close>

definition MARK_CROSS :: string where
  "MARK_CROSS = [CHR 0xC3, CHR 0xA2, CHR 0xC5, CHR 0x92]"

definition MARK_SPEECH :: string where
  "MARK_SPEECH = [CHR 0xC3, CHR 0xB0, CHR 0xC5, CHR 0xB8, CHR 0xE2, CHR 0x80, CHR 0x99, CHR 0xC2, CHR 0xAC]"

definition MARK_MEMO :: string where
  "MARK_MEMO = [CHR 0xC3, CHR 0xB0, CHR 0xC5, CHR 0xB8, CHR 0xE2, CHR 0x80, CHR 0x9C]"

definition MARK_BOOM :: string where
  "MARK_BOOM = [CHR 0xC3, CHR 0xB0, CHR 0xC5, CHR 0xB8, CHR 0xE2, CHR 0x80, CHR 0x99, CHR 0xC2, CHR 0xA5]"

definition MARK_CHECK :: string where
  "MARK_CHECK = [CHR 0xC3, CHR 0xA2, CHR 0xC5, CHR 0x93, CHR 0xE2, CHR 0x80, CHR 0xA6]"

definition FMT_ASSERT :: string where
  "FMT_ASSERT = MARK_CROSS @ '' %s:%d -> %s'' @ NL @ MARK_SPEECH @ '' Assertion of '' @ [CHR 0x27]
     @ ''%s'' @ [CHR 0x27] @ '' failed'' @ NL @ MARK_MEMO @ '' ''"

definition FMT_NO_TESTS :: string where
  "FMT_NO_TESTS = ''ERROR: No tests are defined!'' @ NL"

definition FMT_RUNNING :: string where
  "FMT_RUNNING = CTEST_GRY @ ''INFO: Running a total of %d tests.'' @ NL @ NL"

definition FMT_TEST_FAILED :: string where
  "FMT_TEST_FAILED = MARK_BOOM @ '' Test '' @ CTEST_GRYB @ ''%s'' @ CTEST_GRY @ '' failed %d assertions!'' @ NL"

definition FMT_TEST_PASSED :: string where
  "FMT_TEST_PASSED = MARK_CHECK @ '' Test '' @ CTEST_GRYB @ ''%s'' @ CTEST_GRY @ '' passed.'' @ NL"

definition FMT_SUMMARY :: string where
  "FMT_SUMMARY = CTEST_GRY @ ''    Tests  '' @ CTEST_RED @ ''%d failed'' @ CTEST_GRY @ '' | '' @ CTEST_GRN
     @ ''%d passed'' @ CTEST_GRY @ '' (%d)'' @ NL @ CTEST_RST"

definition FMT_START :: string where
  "FMT_START = CTEST_GRY @ '' Start at  '' @ CTEST_RST @ ''%s'' @ NL"

definition FMT_DURATION :: string where
  "FMT_DURATION = CTEST_GRY @ '' Duration  '' @ CTEST_RST @ ''%lds'' @ NL"

definition FMT_NO_MEMORY :: string where
  "FMT_NO_MEMORY = ''ERROR: Could not allocate memory for timestamp!'' @ NL"

text \<open>Appending one call to the output.\<close>

definition fprintf :: "stream \<Rightarrow> string \<Rightarrow> arg list \<Rightarrow> 'u world \<Rightarrow> 'u world" where
  "fprintf st fmt as w = w\<lparr>out := out w @ [Fprintf st fmt as]\<rparr>"

subsection \<open>\<open>ctest__assert\<close>\<close>

text \<open>
  \<open>static bool ctest__assert(bool result, const char *expression, const char *file,
  const char *test_name, const int line, const char *msg, ...)\<close>. The world is passed
  through, as for every function of the process.
\<close>

definition ctest__assert ::
  "bool \<Rightarrow> string \<Rightarrow> string \<Rightarrow> string \<Rightarrow> c_int \<Rightarrow> string \<Rightarrow> arg list \<Rightarrow> 'u world \<Rightarrow> bool \<times> 'u world" where
  "ctest__assert result expression file' test_name line' msg va w =
     (if result then (True, w)
      else (False,
        fprintf Stderr NL []
          (fprintf Stderr msg va
            (fprintf Stderr FMT_ASSERT [AStr file', AInt (sint line'), AStr test_name, AStr expression] w))))"

subsection \<open>The assertion macros\<close>

text \<open>
  The local variables of a generated test function while its body runs: the counter
  \<open>failed_assertions\<close> and the world. A statement of a test body is a function of
  \<open>__FUNCTION__\<close> (fixed by the enclosing \<open>CTEST_TEST\<close>) on that frame.
\<close>

type_synonym 'u frame = "c_int \<times> 'u world"

type_synonym 'u stmt = "string \<Rightarrow> 'u frame \<Rightarrow> 'u frame"

text \<open>
  \<open>CTEST_ASSERT_MSG(condition, msg, ...)\<close>:
  \<open>failed_assertions += !ctest__assert((condition), #condition, __FILE__, __FUNCTION__,
  __LINE__, msg, ##__VA_ARGS__) ? 1 : 0\<close>.
\<close>

definition CTEST_ASSERT_MSG ::
  "('u, bool) cexpr \<Rightarrow> string \<Rightarrow> arg list \<Rightarrow> string \<Rightarrow> c_int \<Rightarrow> 'u stmt" where
  "CTEST_ASSERT_MSG condition msg va FILE LINE FUNCTION = (\<lambda>(failed_assertions, w).
     (case ctest__assert (val condition (user w)) (src condition) FILE FUNCTION LINE msg va w of
        (r, w') \<Rightarrow> (failed_assertions + (if \<not> r then 1 else 0), w')))"

text \<open>\<open>CTEST_ASSERT(condition)\<close>: the same statement with the message \<open>""\<close> and no arguments.\<close>

definition CTEST_ASSERT :: "('u, bool) cexpr \<Rightarrow> string \<Rightarrow> c_int \<Rightarrow> 'u stmt" where
  "CTEST_ASSERT condition FILE LINE FUNCTION = (\<lambda>(failed_assertions, w).
     (case ctest__assert (val condition (user w)) (src condition) FILE FUNCTION LINE '''' [] w of
        (r, w') \<Rightarrow> (failed_assertions + (if \<not> r then 1 else 0), w')))"

text \<open>The expression \<open>(a) == (b)\<close> built by the equality wrappers from their operands.\<close>

definition EQ_EXPR :: "('u, 'v) cexpr \<Rightarrow> ('u, 'v) cexpr \<Rightarrow> ('u, bool) cexpr" where
  "EQ_EXPR a b = \<lparr>src = ''('' @ src a @ '') == ('' @ src b @ '')'', val = (\<lambda>u. val a u = val b u)\<rparr>"




definition CTEST_ASSERT_EQ_MSG ::
  "('u, 'v) cexpr \<Rightarrow> ('u, 'v) cexpr \<Rightarrow> string \<Rightarrow> arg list \<Rightarrow> string \<Rightarrow> c_int \<Rightarrow> 'u stmt" where
  "CTEST_ASSERT_EQ_MSG a b msg va = CTEST_ASSERT_MSG (EQ_EXPR a b) msg va"



subsection \<open>\<open>CTEST_TEST\<close>\<close>

text \<open>
  A declared test: the name given to \<open>CTEST_TEST\<close> and \<open>ADD\<close>, and the function
  \<open>static int test_<name>(void)\<close>.
\<close>

record 'u testcase =
  name :: string
  fn :: "'u world \<Rightarrow> c_int \<times> 'u world"

text \<open>The statements of a body, run one after the other.\<close>

primrec run_body :: "'u stmt list \<Rightarrow> string \<Rightarrow> 'u frame \<Rightarrow> 'u frame" where
  "run_body [] FUNCTION fr = fr"
| "run_body (s # ss) FUNCTION fr = run_body ss FUNCTION (s FUNCTION fr)"

text \<open>
  \<open>CTEST_TEST(name, ...)\<close>: \<open>static int test_##name(void) { int failed_assertions = 0;
  __VA_ARGS__ return failed_assertions; }\<close>. A body is a sequence of statements that run to
  their end (no \<open>return\<close> of its own).
\<close>

definition CTEST_TEST :: "string \<Rightarrow> 'u stmt list \<Rightarrow> 'u testcase" where
  "CTEST_TEST name' body = \<lparr>name = name', fn = (\<lambda>w. run_body body (''test_'' @ name') (0, w))\<rparr>"

subsection \<open>The environment of a run\<close>

text \<open>The fields of \<open>struct tm\<close> that the format \<open>%H:%M:%S\<close> reads.\<close>

record tm =
  tm_hour :: nat
  tm_min :: nat
  tm_sec :: nat

text \<open>
  What the C library answers during one run: the three readings of \<open>time\<close> (before the
  tests, after them, and inside \<open>ctest__get_timestamp\<close>), whether \<open>malloc\<close> succeeds, and
  \<open>localtime\<close>.
\<close>

record env =
  time_start :: int
  time_end :: int
  time_stamp :: int
  malloc_ok :: bool
  localtime :: "int \<Rightarrow> tm"

text \<open>A function of the header either returns or ends the process with \<open>exit\<close>.\<close>

datatype ('a, 'u) outcome = Exited c_int "'u world" | Returned 'a "'u world"

definition two_digits :: "nat \<Rightarrow> string" where
  "two_digits n = [char_of (48 + n div 10 mod 10), char_of (48 + n mod 10)]"

text \<open>\<open>strftime(buffer, 9, "%H:%M:%S", timeinfo)\<close>.\<close>

definition strftime_HMS :: "tm \<Rightarrow> string" where
  "strftime_HMS t = two_digits (tm_hour t) @ '':'' @ two_digits (tm_min t) @ '':'' @ two_digits (tm_sec t)"

subsection \<open>\<open>ctest__get_timestamp\<close>\<close>

definition ctest__get_timestamp :: "env \<Rightarrow> 'u world \<Rightarrow> (string, 'u) outcome" where
  "ctest__get_timestamp e w =
     (if \<not> malloc_ok e then Exited 1 (fprintf Stderr FMT_NO_MEMORY [] w)
      else Returned (strftime_HMS (localtime e (time_stamp e))) w)"

subsection \<open>\<open>ctest__run_tests\<close>\<close>

text \<open>
  The macro \<open>TESTS\<close> is a list \<open>ADD(n1) ADD(n2) ...\<close> written by the test file; the header
  expands it three times under three definitions of \<open>ADD\<close>. Each name resolves at build
  time to the function \<open>test_<name>\<close>, so an entry of the list is a declared test.
  \<open>TESTS_expand ADD ts\<close> is the statement sequence the list expands to under \<open>ADD\<close>.
\<close>

primrec TESTS_expand :: "('t \<Rightarrow> 's \<Rightarrow> 's) \<Rightarrow> 't list \<Rightarrow> 's \<Rightarrow> 's" where
  "TESTS_expand ADD [] s = s"
| "TESTS_expand ADD (t # ts) s = TESTS_expand ADD ts (ADD t s)"

text \<open>\<open>#define ADD(name) test_count++;\<close>\<close>

definition ADD_count :: "'u testcase \<Rightarrow> c_int \<Rightarrow> c_int" where
  "ADD_count t test_count = test_count + 1"

text \<open>The local variables of the runner that the second \<open>ADD\<close> updates, and the world.\<close>

record 'u run_state =
  fail_test_count :: c_int
  failed_assertions :: c_int
  wld :: "'u world"

text \<open>
  \<open>#define ADD(name) failed_assertions = test_##name(); if (failed_assertions > 0) {
  fprintf(stderr, "... failed %d assertions!\n", #name, failed_assertions);
  fail_test_count++; } else { fprintf(stderr, "... passed.\n", #name); }\<close>
\<close>

definition ADD_run :: "'u testcase \<Rightarrow> 'u run_state \<Rightarrow> 'u run_state" where
  "ADD_run t s =
     (case fn t (wld s) of (r, w') \<Rightarrow>
        (if 0 <s r
         then \<lparr>fail_test_count = fail_test_count s + 1, failed_assertions = r,
               wld = fprintf Stderr FMT_TEST_FAILED [AStr (name t), AInt (sint r)] w'\<rparr>
         else \<lparr>fail_test_count = fail_test_count s, failed_assertions = r,
               wld = fprintf Stderr FMT_TEST_PASSED [AStr (name t)] w'\<rparr>))"

text \<open>
  \<open>static bool ctest__run_tests(void)\<close>. The argument \<open>TESTS\<close> is \<open>None\<close> when the test file
  does not define the macro (the branch under \<open>#ifndef TESTS\<close>), and the list it expands
  to otherwise.
\<close>

definition ctest__run_tests :: "'u testcase list option \<Rightarrow> env \<Rightarrow> 'u world \<Rightarrow> (bool, 'u) outcome" where
  "ctest__run_tests TESTS e w =
     (case TESTS of
        None \<Rightarrow> Exited 1 (fprintf Stderr FMT_NO_TESTS [] w)
      | Some ts \<Rightarrow>
         (let test_count = TESTS_expand ADD_count ts 0;
              w1 = fprintf Stdout FMT_RUNNING [AInt (sint test_count)] w;
              start_time = time_start e;
              s = TESTS_expand ADD_run ts \<lparr>fail_test_count = 0, failed_assertions = 0, wld = w1\<rparr>;
              end_time = time_end e;
              w2 = fprintf Stdout NL [] (wld s);
              pass_test_count = test_count - fail_test_count s;
              w3 = fprintf Stdout FMT_SUMMARY
                     [AInt (sint (fail_test_count s)), AInt (sint pass_test_count), AInt (sint test_count)] w2
          in (case ctest__get_timestamp e w3 of
                Exited c w' \<Rightarrow> Exited c w'
              | Returned buffer w4 \<Rightarrow>
                 (let w5 = fprintf Stdout FMT_START [AStr buffer] w4;
                      w6 = fprintf Stdout FMT_DURATION [AInt (end_time - start_time)] w5
                  in if 0 <s fail_test_count s then Returned False w6 else Returned True w6))))"

subsection \<open>\<open>CTEST_RUN_TESTS\<close>\<close>

text \<open>
  \<open>int main(void) { return ctest__run_tests() ? 0 : 1; }\<close>: the exit status of the
  process and the world it leaves.
\<close>

definition CTEST_RUN_TESTS :: "'u testcase list option \<Rightarrow> env \<Rightarrow> 'u world \<Rightarrow> c_int \<times> 'u world" where
  "CTEST_RUN_TESTS TESTS e w =
     (case ctest__run_tests TESTS e w of
        Exited c w' \<Rightarrow> (c, w')
      | Returned b w' \<Rightarrow> ((if b then 0 else 1), w'))"

subsection \<open>The text of the output\<close>

text \<open>
  The directives of \<open>printf\<close> that the header's own format strings use: \<open>%d\<close> and \<open>%ld\<close>
  (a signed decimal), \<open>%s\<close> (a string) and \<open>%%\<close>. Any other directive, and a directive
  with no argument of its kind, is left as it stands.
\<close>

fun show_nat :: "nat \<Rightarrow> string" where
  "show_nat n = (if n < 10 then [char_of (48 + n)] else show_nat (n div 10) @ [char_of (48 + n mod 10)])"

definition show_int :: "int \<Rightarrow> string" where
  "show_int i = (if i < 0 then ''-'' @ show_nat (nat (- i)) else show_nat (nat i))"

fun c_format :: "string \<Rightarrow> arg list \<Rightarrow> string" where
  "c_format [] va = []"
| "c_format [c] va = [c]"
| "c_format (c # d # fs) va =
     (if c = CHR ''%'' \<and> d = CHR ''%'' then CHR ''%'' # c_format fs va
      else if c = CHR ''%'' \<and> d = CHR ''s'' then
        (case va of AStr x # va' \<Rightarrow> x @ c_format fs va' | _ \<Rightarrow> c # c_format (d # fs) va)
      else if c = CHR ''%'' \<and> d = CHR ''d'' then
        (case va of AInt i # va' \<Rightarrow> show_int i @ c_format fs va' | _ \<Rightarrow> c # c_format (d # fs) va)
      else if c = CHR ''%'' \<and> d = CHR ''l'' \<and> take 1 fs = ''d'' then
        (case va of AInt i # va' \<Rightarrow> show_int i @ c_format (drop 1 fs) va' | _ \<Rightarrow> c # c_format (d # fs) va)
      else c # c_format (d # fs) va)"

text \<open>The bytes that reach one stream.\<close>

fun text_on :: "stream \<Rightarrow> call list \<Rightarrow> string" where
  "text_on st [] = []"
| "text_on st (Fprintf st' fmt va # cs) = (if st' = st then c_format fmt va else []) @ text_on st cs"

subsection \<open>Test bodies made of assertion calls\<close>




text \<open>
  The diagnostic of one failed assertion: the three calls of \<open>ctest__assert\<close> on the error
  stream, for the given expression text, file, enclosing function, line and message.
\<close>

definition diagnostic :: "string \<Rightarrow> string \<Rightarrow> string \<Rightarrow> c_int \<Rightarrow> string \<Rightarrow> arg list \<Rightarrow> call list" where
  "diagnostic expression F FUNCTION L msg va =
     [Fprintf Stderr FMT_ASSERT [AStr F, AInt (sint L), AStr FUNCTION, AStr expression],
      Fprintf Stderr msg va,
      Fprintf Stderr NL []]"


subsection \<open>The run as the specification words it\<close>

text \<open>
  The Running state in the specification's words: iterate the registry in its declared
  order; for each test invoke it, capture the returned failure count, print one line
  classifying the test as passed or as failed (count above 0, with the count). The result
  is the log of the invocations (name and returned count, in the order they happened) and
  the world after the last one.
\<close>

definition spec_verdict :: "'u testcase \<Rightarrow> c_int \<Rightarrow> 'u world \<Rightarrow> 'u world" where
  "spec_verdict t r w =
     (if 0 <s r then fprintf Stderr FMT_TEST_FAILED [AStr (name t), AInt (sint r)] w
      else fprintf Stderr FMT_TEST_PASSED [AStr (name t)] w)"

fun spec_running :: "'u testcase list \<Rightarrow> 'u world \<Rightarrow> (string \<times> c_int) list \<times> 'u world" where
  "spec_running [] w = ([], w)"
| "spec_running (t # ts) w =
     (case fn t w of (r, w1) \<Rightarrow>
        (case spec_running ts (spec_verdict t r w1) of
           (log, w2) \<Rightarrow> ((name t, r) # log, w2)))"

text \<open>The number of invocations of a log that the runner counts as failed tests.\<close>

definition failed_tests :: "(string \<times> c_int) list \<Rightarrow> nat" where
  "failed_tests log = length (filter (\<lambda>(n, r). 0 <s r) log)"

text \<open>The step from NotStarted to Running: the startup line with the total test count.\<close>

definition spec_started :: "'u testcase list \<Rightarrow> 'u world \<Rightarrow> 'u world" where
  "spec_started ts w = fprintf Stdout FMT_RUNNING [AInt (int (length ts))] w"

text \<open>The Reporting state: the four calls on the standard output that end a run.\<close>

definition spec_reporting :: "nat \<Rightarrow> nat \<Rightarrow> env \<Rightarrow> call list" where
  "spec_reporting n_total n_failed e =
     [Fprintf Stdout NL [],
      Fprintf Stdout FMT_SUMMARY [AInt (int n_failed), AInt (int n_total - int n_failed), AInt (int n_total)],
      Fprintf Stdout FMT_START [AStr (strftime_HMS (localtime e (time_stamp e)))],
      Fprintf Stdout FMT_DURATION [AInt (time_end e - time_start e)]]"

text \<open>The world a function leaves, whether it returned or ended the process.\<close>

fun final_world :: "('a, 'u) outcome \<Rightarrow> 'u world" where
  "final_world (Exited c w) = w"
| "final_world (Returned x w) = w"

subsection \<open>Example test files\<close>

definition ex_true :: "(unit, bool) cexpr" where
  "ex_true = \<lparr>src = ''1 == 1'', val = (\<lambda>u. True)\<rparr>"

definition ex_false :: "(unit, bool) cexpr" where
  "ex_false = \<lparr>src = ''1 == 2'', val = (\<lambda>u. False)\<rparr>"

definition ex_two :: "(unit, int) cexpr" where
  "ex_two = \<lparr>src = ''1 + 1'', val = (\<lambda>u. 2)\<rparr>"

definition ex_three :: "(unit, int) cexpr" where
  "ex_three = \<lparr>src = ''3'', val = (\<lambda>u. 3)\<rparr>"

text \<open>\<open>CTEST_TEST(A, CTEST_ASSERT(1 == 1);)\<close>: passes.\<close>

definition test_A :: "unit testcase" where
  "test_A = CTEST_TEST ''A'' [CTEST_ASSERT ex_true ''demo.c'' 3]"

text \<open>\<open>CTEST_TEST(B, CTEST_ASSERT(1 == 2);)\<close>: fails one assertion.\<close>

definition test_B :: "unit testcase" where
  "test_B = CTEST_TEST ''B'' [CTEST_ASSERT ex_false ''demo.c'' 7]"

text \<open>
  \<open>CTEST_TEST(C, CTEST_ASSERT(1 == 2); CTEST_ASSERT(1 == 1); CTEST_ASSERT_EQ_MSG(1 + 1, 3,
  "got %d", 2);)\<close>: fails two assertions.
\<close>

definition test_C :: "unit testcase" where
  "test_C = CTEST_TEST ''C''
     [CTEST_ASSERT ex_false ''demo.c'' 11, CTEST_ASSERT ex_true ''demo.c'' 12,
      CTEST_ASSERT_EQ_MSG ex_two ex_three ''got %d'' [AInt 2] ''demo.c'' 13]"

text \<open>\<open>CTEST_TEST(N, failed_assertions = -1;)\<close>: a body that leaves the counter negative.\<close>

definition test_N :: "unit testcase" where
  "test_N = CTEST_TEST ''N'' [\<lambda>FUNCTION (failed_assertions, w). (- 1, w)]"

definition ex_env :: env where
  "ex_env = \<lparr>time_start = 1000, time_end = 1002, time_stamp = 1002, malloc_ok = True,
             localtime = (\<lambda>t. \<lparr>tm_hour = 9, tm_min = 5, tm_sec = 42\<rparr>)\<rparr>"

definition ex_world :: "unit world" where
  "ex_world = \<lparr>out = [], user = ()\<rparr>"




text \<open>
  A hand-written test function \<open>static int test_<n>(void)\<close> that appends its name to a
  global list of the test file and returns \<open>r\<close>.
\<close>

definition probe :: "string \<Rightarrow> c_int \<Rightarrow> string list testcase" where
  "probe n r = \<lparr>name = n, fn = (\<lambda>w. (r, w\<lparr>user := user w @ [n]\<rparr>))\<rparr>"

text \<open>Three probes, two of which report failed assertions, and their starting world.\<close>

definition ex_probes :: "(string \<times> c_int) list" where
  "ex_probes = [(''x'', 1), (''y'', 0), (''z'', 5)]"

definition ex_log_world :: "string list world" where
  "ex_log_world = \<lparr>out = [], user = []\<rparr>"

text \<open>The text of every summary line among the calls written.\<close>

fun summary_lines :: "call list \<Rightarrow> string list" where
  "summary_lines [] = []"
| "summary_lines (Fprintf st fmt va # cs) =
     (if st = Stdout \<and> fmt = FMT_SUMMARY then [c_format fmt va] else []) @ summary_lines cs"

section \<open>Properties\<close>

subsection \<open>Machine integers\<close>

lemma sint_of_nat_small: "k < 2 ^ 31 \<Longrightarrow> sint (of_nat k :: c_int) = int k"
  by (simp add: signed_of_nat signed_take_bit_int_eq_self)

lemma sless_of_nat_small: "k < 2 ^ 31 \<Longrightarrow> (0 <s (of_nat k :: c_int)) = (0 < k)"
  by (simp add: word_sless_alt sint_of_nat_small)

subsection \<open>One assertion, one body\<close>

lemma ctest__assert_eq:
  "ctest__assert r x f t l m va w =
     (r, if r then w else w\<lparr>out := out w @ diagnostic x f t l m va\<rparr>)"
  by (simp add: ctest__assert_def fprintf_def diagnostic_def)

lemma CTEST_ASSERT_MSG_step:
  "CTEST_ASSERT_MSG c m va F L FN (n, w) =
     (n + (if val c (user w) then 0 else 1),
      w\<lparr>out := out w @ (if val c (user w) then [] else diagnostic (src c) F FN L m va)\<rparr>)"
  by (simp add: CTEST_ASSERT_MSG_def ctest__assert_eq)

lemma CTEST_ASSERT_as_MSG: "CTEST_ASSERT c F L = CTEST_ASSERT_MSG c [] [] F L"
  by (rule ext) (simp add: CTEST_ASSERT_def CTEST_ASSERT_MSG_def)



subsection \<open>The loop over the registry\<close>

lemma count_TESTS: "TESTS_expand ADD_count ts n = n + of_nat (length ts)"
  by (induction ts arbitrary: n) (simp_all add: ADD_count_def)

lemma spec_running_Cons_log:
  "fst (spec_running (t # ts) w) =
     (name t, fst (fn t w)) # fst (spec_running ts (spec_verdict t (fst (fn t w)) (snd (fn t w))))"
  by (simp split: prod.splits)

lemma spec_running_Cons_world:
  "snd (spec_running (t # ts) w) =
     snd (spec_running ts (spec_verdict t (fst (fn t w)) (snd (fn t w))))"
  by (simp split: prod.splits)

lemma ADD_run_world: "wld (ADD_run t s) = spec_verdict t (fst (fn t (wld s))) (snd (fn t (wld s)))"
  by (simp add: ADD_run_def spec_verdict_def split: prod.splits)

lemma ADD_run_count:
  "fail_test_count (ADD_run t s) = fail_test_count s + (if 0 <s fst (fn t (wld s)) then 1 else 0)"
  by (simp add: ADD_run_def split: prod.splits)

lemma run_TESTS_world: "wld (TESTS_expand ADD_run ts s) = snd (spec_running ts (wld s))"
proof (induction ts arbitrary: s)
  case Nil
  show ?case by simp
next
  case (Cons t ts)
  show ?case
    by (simp only: TESTS_expand.simps Cons.IH ADD_run_world spec_running_Cons_world)
qed

lemma run_TESTS_count:
  "fail_test_count (TESTS_expand ADD_run ts s) =
     fail_test_count s + of_nat (failed_tests (fst (spec_running ts (wld s))))"
proof (induction ts arbitrary: s)
  case Nil
  show ?case by (simp add: failed_tests_def)
next
  case (Cons t ts)
  show ?case
    by (simp add: Cons.IH ADD_run_world ADD_run_count spec_running_Cons_log failed_tests_def
          del: spec_running.simps)
qed

lemma spec_running_names: "map fst (fst (spec_running ts w)) = map name ts"
proof (induction ts arbitrary: w)
  case Nil
  show ?case by simp
next
  case (Cons t ts)
  show ?case by (simp add: spec_running_Cons_log Cons.IH del: spec_running.simps)
qed

lemma failed_tests_le: "failed_tests (fst (spec_running ts w)) \<le> length ts"
proof -
  have "failed_tests (fst (spec_running ts w)) \<le> length (fst (spec_running ts w))"
    by (simp add: failed_tests_def)
  also have "\<dots> = length (map fst (fst (spec_running ts w)))" by simp
  also have "\<dots> = length ts" by (simp only: spec_running_names length_map)
  finally show ?thesis .
qed

subsection \<open>A whole run\<close>

lemma run_tests_Some:
  assumes len: "length ts < 2 ^ 31" and mem: "malloc_ok e"
  shows "ctest__run_tests (Some ts) e w =
           Returned (failed_tests (fst (spec_running ts (spec_started ts w))) = 0)
             ((snd (spec_running ts (spec_started ts w)))
                \<lparr>out := out (snd (spec_running ts (spec_started ts w)))
                   @ spec_reporting (length ts) (failed_tests (fst (spec_running ts (spec_started ts w)))) e\<rparr>)"
proof -
  let ?w1 = "spec_started ts w"
  let ?k = "failed_tests (fst (spec_running ts ?w1))"
  have kle: "?k \<le> length ts" by (rule failed_tests_le)
  with len have klt: "?k < 2 ^ 31" by simp
  have total: "sint (of_nat (length ts) :: c_int) = int (length ts)"
    using len by (rule sint_of_nat_small)
  have failed: "sint (of_nat ?k :: c_int) = int ?k"
    using klt by (rule sint_of_nat_small)
  have diff: "(of_nat (length ts) :: c_int) - of_nat ?k = of_nat (length ts - ?k)"
    using kle by (simp add: of_nat_diff)
  have "length ts - ?k < 2 ^ 31" using len by simp
  then have "sint (of_nat (length ts - ?k) :: c_int) = int (length ts - ?k)"
    by (rule sint_of_nat_small)
  with diff kle have passed: "sint ((of_nat (length ts) :: c_int) - of_nat ?k) = int (length ts) - int ?k"
    by (simp only: of_nat_diff)
  have pos: "(0 <s (of_nat ?k :: c_int)) = (0 < ?k)"
    using klt by (rule sless_of_nat_small)
  have "ctest__run_tests (Some ts) e w =
          Returned (?k = 0)
            (fprintf Stdout FMT_DURATION [AInt (time_end e - time_start e)]
              (fprintf Stdout FMT_START [AStr (strftime_HMS (localtime e (time_stamp e)))]
                (fprintf Stdout FMT_SUMMARY [AInt (int ?k), AInt (int (length ts) - int ?k), AInt (int (length ts))]
                  (fprintf Stdout NL [] (snd (spec_running ts ?w1))))))"
    using mem
    by (simp add: ctest__run_tests_def Let_def count_TESTS total ctest__get_timestamp_def
          spec_started_def [symmetric] run_TESTS_world run_TESTS_count failed passed pos)
  also have "\<dots> = Returned (?k = 0)
      ((snd (spec_running ts ?w1))
         \<lparr>out := out (snd (spec_running ts ?w1)) @ spec_reporting (length ts) ?k e\<rparr>)"
    by (simp add: spec_reporting_def fprintf_def)
  finally show ?thesis .
qed

subsection \<open>The text of a diagnostic\<close>

lemma c_format_literal: "c \<noteq> CHR ''%'' \<Longrightarrow> c_format (c # fs) va = c # c_format fs va"
  by (cases fs) simp_all

lemma diagnostic_text:
  "text_on Stderr (diagnostic x f t l m va) =
     MARK_CROSS @ '' '' @ f @ '':'' @ show_int (sint l) @ '' -> '' @ t @ NL
     @ MARK_SPEECH @ '' Assertion of '' @ [CHR 0x27] @ x @ [CHR 0x27] @ '' failed'' @ NL
     @ MARK_MEMO @ '' '' @ c_format m va @ NL"
  by (simp add: diagnostic_def FMT_ASSERT_def MARK_CROSS_def MARK_SPEECH_def MARK_MEMO_def NL_def)

subsection \<open>The example test files, evaluated\<close>

lemma fn_test_A: "fn test_A w = (0, w)"
  by (simp add: test_A_def CTEST_TEST_def CTEST_ASSERT_as_MSG CTEST_ASSERT_MSG_step ex_true_def)

lemma fn_test_B:
  "fn test_B w = (1, w\<lparr>out := out w @ diagnostic ''1 == 2'' ''demo.c'' ''test_B'' 7 [] []\<rparr>)"
  by (simp add: test_B_def CTEST_TEST_def CTEST_ASSERT_as_MSG CTEST_ASSERT_MSG_step ex_false_def)

lemma fn_test_C:
  "fn test_C w =
     (2, w\<lparr>out := out w @ diagnostic ''1 == 2'' ''demo.c'' ''test_C'' 11 [] []
                 @ diagnostic ''(1 + 1) == (3)'' ''demo.c'' ''test_C'' 13 ''got %d'' [AInt 2]\<rparr>)"
  by (simp add: test_C_def CTEST_TEST_def CTEST_ASSERT_as_MSG CTEST_ASSERT_EQ_MSG_def
        CTEST_ASSERT_MSG_step ex_false_def ex_true_def ex_two_def ex_three_def EQ_EXPR_def)

lemma fn_test_N: "fn test_N w = (- 1, w)"
  by (simp add: test_N_def CTEST_TEST_def)

lemma name_tests:
  "name test_A = ''A''" "name test_B = ''B''" "name test_C = ''C''" "name test_N = ''N''"
  by (simp_all add: test_A_def test_B_def test_C_def test_N_def CTEST_TEST_def)

lemma log_ABC:
  "fst (spec_running [test_A, test_B, test_C] w) = [(''A'', 0), (''B'', 1), (''C'', 2)]"
  by (simp add: fn_test_A fn_test_B fn_test_C name_tests)

lemma failed_ABC: "failed_tests (fst (spec_running [test_A, test_B, test_C] w)) = 2"
  by (simp add: log_ABC failed_tests_def word_sless_alt del: spec_running.simps)

lemma failed_AA: "failed_tests (fst (spec_running [test_A, test_A] w)) = 0"
  by (simp add: fn_test_A name_tests failed_tests_def word_sless_alt)

subsection \<open>Summaries, probes and the remaining examples\<close>

lemma summary_lines_append: "summary_lines (xs @ ys) = summary_lines xs @ summary_lines ys"
proof (induction xs)
  case Nil
  show ?case by simp
next
  case (Cons c cs)
  then show ?case by (cases c) simp
qed

lemma FMT_not_SUMMARY:
  "FMT_RUNNING \<noteq> FMT_SUMMARY" "FMT_START \<noteq> FMT_SUMMARY" "FMT_DURATION \<noteq> FMT_SUMMARY"
  "NL \<noteq> FMT_SUMMARY"
  by (simp_all add: FMT_RUNNING_def FMT_START_def FMT_DURATION_def FMT_SUMMARY_def NL_def
        CTEST_GRY_def ESC_def)

lemma summary_text:
  "c_format FMT_SUMMARY [AInt f, AInt p, AInt t] =
     CTEST_GRY @ ''    Tests  '' @ CTEST_RED @ show_int f @ '' failed'' @ CTEST_GRY @ '' | ''
     @ CTEST_GRN @ show_int p @ '' passed'' @ CTEST_GRY @ '' ('' @ show_int t @ '')'' @ NL @ CTEST_RST"
  by (simp add: FMT_SUMMARY_def CTEST_GRY_def CTEST_RED_def CTEST_GRN_def CTEST_RST_def ESC_def NL_def)

lemma show_int_digits: "show_int 0 = ''0''" "show_int 1 = ''1''" "show_int 2 = ''2''" "show_int 3 = ''3''"
  by code_simp+

lemma summary_lines_reporting:
  "summary_lines (spec_reporting n k e) = [c_format FMT_SUMMARY [AInt (int k), AInt (int n - int k), AInt (int n)]]"
  by (simp add: spec_reporting_def FMT_not_SUMMARY)

lemma world_ABC:
  "snd (spec_running [test_A, test_B, test_C] w) =
     w\<lparr>out := out w @
        [Fprintf Stderr FMT_TEST_PASSED [AStr ''A'']]
        @ diagnostic ''1 == 2'' ''demo.c'' ''test_B'' 7 [] []
        @ [Fprintf Stderr FMT_TEST_FAILED [AStr ''B'', AInt 1]]
        @ diagnostic ''1 == 2'' ''demo.c'' ''test_C'' 11 [] []
        @ diagnostic ''(1 + 1) == (3)'' ''demo.c'' ''test_C'' 13 ''got %d'' [AInt 2]
        @ [Fprintf Stderr FMT_TEST_FAILED [AStr ''C'', AInt 2]]\<rparr>"
  by (simp add: fn_test_A fn_test_B fn_test_C name_tests spec_verdict_def fprintf_def word_sless_alt)

lemma summary_ABC:
  "summary_lines (out (snd (CTEST_RUN_TESTS (Some [test_A, test_B, test_C]) ex_env ex_world)))
     = [CTEST_GRY @ ''    Tests  '' @ CTEST_RED @ ''2 failed'' @ CTEST_GRY @ '' | ''
        @ CTEST_GRN @ ''1 passed'' @ CTEST_GRY @ '' (3)'' @ NL @ CTEST_RST]"
proof -
  have len: "length [test_A, test_B, test_C] < 2 ^ 31" by simp
  have mem: "malloc_ok ex_env" by (simp add: ex_env_def)
  have "summary_lines (out (snd (CTEST_RUN_TESTS (Some [test_A, test_B, test_C]) ex_env ex_world)))
          = [c_format FMT_SUMMARY [AInt 2, AInt 1, AInt 3]]"
    by (simp add: CTEST_RUN_TESTS_def run_tests_Some [OF len mem] failed_ABC world_ABC
          summary_lines_append summary_lines_reporting spec_started_def fprintf_def diagnostic_def
          FMT_not_SUMMARY ex_world_def
          del: spec_running.simps)
  then show ?thesis by (simp add: summary_text show_int_digits)
qed

lemma exit_ABC: "fst (CTEST_RUN_TESTS (Some [test_A, test_B, test_C]) ex_env ex_world) = 1"
proof -
  have len: "length [test_A, test_B, test_C] < 2 ^ 31" by simp
  have mem: "malloc_ok ex_env" by (simp add: ex_env_def)
  show ?thesis
    by (simp add: CTEST_RUN_TESTS_def run_tests_Some [OF len mem] failed_ABC del: spec_running.simps)
qed

lemma spec_verdict_user: "user (spec_verdict t r w) = user w"
  by (simp add: spec_verdict_def fprintf_def)

lemma probe_sel: "name (probe n r) = n" "fn (probe n r) w = (r, w\<lparr>user := user w @ [n]\<rparr>)"
  by (simp_all add: probe_def)

lemma spec_running_probes:
  "user (snd (spec_running (map (\<lambda>(n, r). probe n r) nrs) w)) = user w @ map fst nrs"
proof (induction nrs arbitrary: w)
  case Nil
  show ?case by simp
next
  case (Cons p ps)
  show ?case
    by (cases p) (simp add: spec_running_Cons_world Cons.IH spec_verdict_user probe_sel
                    del: spec_running.simps)
qed

section \<open>The claims of the specification\<close>

text \<open>
  C1. When a run reaches its end (the list \<open>TESTS\<close> is defined and the timestamp buffer is
  allocated), \<open>ctest__run_tests\<close> returns true exactly when the number of failed tests is 0,
  and the \<open>main\<close> emitted by \<open>CTEST_RUN_TESTS\<close> returns 0 in that case and 1 otherwise. The
  counters are C \<open>int\<close>s, so the registry has fewer than \<open>2^31\<close> entries.
\<close>

theorem run_tests_true_iff_no_failed_test:
  assumes "length ts < 2 ^ 31" and "malloc_ok e"
  shows "\<exists>w'. ctest__run_tests (Some ts) e w
                 = Returned (failed_tests (fst (spec_running ts (spec_started ts w))) = 0) w'
            \<and> CTEST_RUN_TESTS (Some ts) e w
                 = ((if failed_tests (fst (spec_running ts (spec_started ts w))) = 0 then 0 else 1), w')"
  using assms by (simp add: CTEST_RUN_TESTS_def run_tests_Some)

theorem run_tests_true_iff_no_failed_test_witness:
  "length [test_A, test_B, test_C] < 2 ^ 31 \<and> malloc_ok ex_env
   \<and> (\<exists>w'. ctest__run_tests (Some [test_A, test_B, test_C]) ex_env ex_world = Returned False w'
          \<and> CTEST_RUN_TESTS (Some [test_A, test_B, test_C]) ex_env ex_world = (1, w'))
   \<and> (\<exists>w'. ctest__run_tests (Some [test_A, test_A]) ex_env ex_world = Returned True w'
          \<and> CTEST_RUN_TESTS (Some [test_A, test_A]) ex_env ex_world = (0, w'))"
proof -
  have len: "length [test_A, test_B, test_C] < 2 ^ 31" by simp
  have len2: "length [test_A, test_A] < 2 ^ 31" by simp
  have mem: "malloc_ok ex_env" by (simp add: ex_env_def)
  show ?thesis
    using run_tests_true_iff_no_failed_test [OF len mem, of ex_world]
      run_tests_true_iff_no_failed_test [OF len2 mem, of ex_world] mem
    by (simp add: failed_ABC failed_AA del: spec_running.simps)
qed



text \<open>
  C3. When the test file does not define the list \<open>TESTS\<close>, the runner fails fast: it
  writes the diagnostic that no tests are defined to the error stream, ends the process
  with the exit status 1, and prints no summary.
\<close>

theorem undefined_TESTS_fails_fast:
  "ctest__run_tests None e w = Exited 1 (w\<lparr>out := out w @ [Fprintf Stderr FMT_NO_TESTS []]\<rparr>)
   \<and> CTEST_RUN_TESTS None e w = (1, w\<lparr>out := out w @ [Fprintf Stderr FMT_NO_TESTS []]\<rparr>)
   \<and> (1 :: c_int) \<noteq> 0
   \<and> c_format FMT_NO_TESTS [] = ''ERROR: No tests are defined!'' @ NL
   \<and> summary_lines (out (snd (CTEST_RUN_TESTS None e w))) = summary_lines (out w)"
  by (simp add: ctest__run_tests_def CTEST_RUN_TESTS_def fprintf_def summary_lines_append
        FMT_NO_TESTS_def NL_def)

text \<open>
  The guard of the runner is \<open>#ifndef TESTS\<close>: a list that is defined but holds no entry
  passes it. The run then reports 0 failed, 0 passed, 0 tests and the process exits with
  the status 0, so an empty registry as such is not rejected.
\<close>

theorem defined_empty_TESTS_reports_success:
  "CTEST_RUN_TESTS (Some []) ex_env ex_world =
     (0, \<lparr>out = [Fprintf Stdout FMT_RUNNING [AInt 0], Fprintf Stdout NL [],
                 Fprintf Stdout FMT_SUMMARY [AInt 0, AInt 0, AInt 0],
                 Fprintf Stdout FMT_START [AStr ''09:05:42''],
                 Fprintf Stdout FMT_DURATION [AInt 2]], user = ()\<rparr>)
   \<and> c_format FMT_SUMMARY [AInt 0, AInt 0, AInt 0]
       = CTEST_GRY @ ''    Tests  '' @ CTEST_RED @ ''0 failed'' @ CTEST_GRY @ '' | ''
         @ CTEST_GRN @ ''0 passed'' @ CTEST_GRY @ '' (0)'' @ NL @ CTEST_RST"
proof -
  have len: "length ([] :: unit testcase list) < 2 ^ 31" by simp
  have mem: "malloc_ok ex_env" by (simp add: ex_env_def)
  have hms: "strftime_HMS (localtime ex_env (time_stamp ex_env)) = ''09:05:42''"
    unfolding ex_env_def strftime_HMS_def two_digits_def by code_simp
  have "CTEST_RUN_TESTS (Some []) ex_env ex_world =
     (0, \<lparr>out = [Fprintf Stdout FMT_RUNNING [AInt 0], Fprintf Stdout NL [],
                 Fprintf Stdout FMT_SUMMARY [AInt 0, AInt 0, AInt 0],
                 Fprintf Stdout FMT_START [AStr ''09:05:42''],
                 Fprintf Stdout FMT_DURATION [AInt 2]], user = ()\<rparr>)"
    by (simp add: CTEST_RUN_TESTS_def run_tests_Some [OF len mem] failed_tests_def
          spec_reporting_def spec_started_def fprintf_def hms ex_world_def)
       (simp add: ex_env_def)
  then show ?thesis by (simp add: summary_text show_int_digits)
qed

text \<open>
  C4. \<open>ctest__assert\<close> called with a true condition returns true and leaves the world as it
  was (no output, no side effect). Called with a false condition it returns false and
  writes one diagnostic to the error stream, and nothing to the standard output: the file,
  the line, the name of the enclosing test, the text of the condition and the formatted
  message, in that order.
\<close>

theorem ctest__assert_true_silent_false_diagnoses:
  "ctest__assert True x f t l m va w = (True, w)
   \<and> ctest__assert False x f t l m va w
       = (False, w\<lparr>out := out w @ [Fprintf Stderr FMT_ASSERT [AStr f, AInt (sint l), AStr t, AStr x],
                                    Fprintf Stderr m va, Fprintf Stderr NL []]\<rparr>)
   \<and> text_on Stderr [Fprintf Stderr FMT_ASSERT [AStr f, AInt (sint l), AStr t, AStr x],
                      Fprintf Stderr m va, Fprintf Stderr NL []]
       = MARK_CROSS @ '' '' @ f @ '':'' @ show_int (sint l) @ '' -> '' @ t @ NL
         @ MARK_SPEECH @ '' Assertion of '' @ [CHR 0x27] @ x @ [CHR 0x27] @ '' failed'' @ NL
         @ MARK_MEMO @ '' '' @ c_format m va @ NL
   \<and> text_on Stdout [Fprintf Stderr FMT_ASSERT [AStr f, AInt (sint l), AStr t, AStr x],
                      Fprintf Stderr m va, Fprintf Stderr NL []] = []"
  using diagnostic_text [of x f t l m va]
  by (simp add: ctest__assert_eq diagnostic_def)

text \<open>
  C5. In the Reporting phase the runner prints, after the output of the tests, the summary
  of failed, passed and total tests, where passed is the total minus the failed tests, then
  the timestamp and the duration. For the registry of the three tests \<open>A\<close> (passes), \<open>B\<close>
  (fails one assertion) and \<open>C\<close> (fails two assertions) the summary reads
  \<open>2 failed | 1 passed (3)\<close> between its colour codes, and the exit status is 1.
\<close>

theorem summary_reports_failed_passed_total:
  assumes "length ts < 2 ^ 31" and "malloc_ok e"
  shows "out (final_world (ctest__run_tests (Some ts) e w))
           = out (snd (spec_running ts (spec_started ts w)))
             @ [Fprintf Stdout NL [],
                Fprintf Stdout FMT_SUMMARY
                  [AInt (int (failed_tests (fst (spec_running ts (spec_started ts w))))),
                   AInt (int (length ts) - int (failed_tests (fst (spec_running ts (spec_started ts w))))),
                   AInt (int (length ts))],
                Fprintf Stdout FMT_START [AStr (strftime_HMS (localtime e (time_stamp e)))],
                Fprintf Stdout FMT_DURATION [AInt (time_end e - time_start e)]]
       \<and> c_format FMT_SUMMARY [AInt f, AInt p, AInt t]
           = CTEST_GRY @ ''    Tests  '' @ CTEST_RED @ show_int f @ '' failed'' @ CTEST_GRY @ '' | ''
             @ CTEST_GRN @ show_int p @ '' passed'' @ CTEST_GRY @ '' ('' @ show_int t @ '')'' @ NL @ CTEST_RST
       \<and> summary_lines (out (snd (CTEST_RUN_TESTS (Some [test_A, test_B, test_C]) ex_env ex_world)))
           = [CTEST_GRY @ ''    Tests  '' @ CTEST_RED @ ''2 failed'' @ CTEST_GRY @ '' | ''
              @ CTEST_GRN @ ''1 passed'' @ CTEST_GRY @ '' (3)'' @ NL @ CTEST_RST]
       \<and> fst (CTEST_RUN_TESTS (Some [test_A, test_B, test_C]) ex_env ex_world) = 1"
  using summary_ABC exit_ABC summary_text [of f p t]
  by (simp add: run_tests_Some [OF assms] spec_reporting_def del: spec_running.simps)

theorem summary_reports_failed_passed_total_witness:
  "length [test_A, test_B, test_C] < 2 ^ 31 \<and> malloc_ok ex_env
   \<and> out (final_world (ctest__run_tests (Some [test_A, test_B, test_C]) ex_env ex_world))
       = [Fprintf Stdout FMT_RUNNING [AInt 3],
          Fprintf Stderr FMT_TEST_PASSED [AStr ''A''],
          Fprintf Stderr FMT_ASSERT [AStr ''demo.c'', AInt 7, AStr ''test_B'', AStr ''1 == 2''],
          Fprintf Stderr [] [], Fprintf Stderr NL [],
          Fprintf Stderr FMT_TEST_FAILED [AStr ''B'', AInt 1],
          Fprintf Stderr FMT_ASSERT [AStr ''demo.c'', AInt 11, AStr ''test_C'', AStr ''1 == 2''],
          Fprintf Stderr [] [], Fprintf Stderr NL [],
          Fprintf Stderr FMT_ASSERT [AStr ''demo.c'', AInt 13, AStr ''test_C'', AStr ''(1 + 1) == (3)''],
          Fprintf Stderr ''got %d'' [AInt 2], Fprintf Stderr NL [],
          Fprintf Stderr FMT_TEST_FAILED [AStr ''C'', AInt 2],
          Fprintf Stdout NL [],
          Fprintf Stdout FMT_SUMMARY [AInt 2, AInt 1, AInt 3],
          Fprintf Stdout FMT_START [AStr ''09:05:42''],
          Fprintf Stdout FMT_DURATION [AInt 2]]"
proof -
  have len: "length [test_A, test_B, test_C] < 2 ^ 31" by simp
  have mem: "malloc_ok ex_env" by (simp add: ex_env_def)
  have hms: "strftime_HMS (localtime ex_env (time_stamp ex_env)) = ''09:05:42''"
    unfolding ex_env_def strftime_HMS_def two_digits_def by code_simp
  have dur: "time_end ex_env - time_start ex_env = 2" by (simp add: ex_env_def)
  show ?thesis
    using summary_reports_failed_passed_total [OF len mem, of ex_world] mem
    by (simp add: failed_ABC world_ABC hms dur spec_started_def fprintf_def diagnostic_def ex_world_def
          del: spec_running.simps)
qed

text \<open>
  Two of the three tests fail an assertion, so the summary of that run is not
  \<open>1 failed | 2 passed (3)\<close>: the runner counts failed tests, and a test fails with its
  first failed assertion.
\<close>

theorem three_tests_summary_is_two_failed_one_passed:
  "summary_lines (out (snd (CTEST_RUN_TESTS (Some [test_A, test_B, test_C]) ex_env ex_world)))
     = [CTEST_GRY @ ''    Tests  '' @ CTEST_RED @ ''2 failed'' @ CTEST_GRY @ '' | ''
        @ CTEST_GRN @ ''1 passed'' @ CTEST_GRY @ '' (3)'' @ NL @ CTEST_RST]
   \<and> summary_lines (out (snd (CTEST_RUN_TESTS (Some [test_A, test_B, test_C]) ex_env ex_world)))
     \<noteq> [CTEST_GRY @ ''    Tests  '' @ CTEST_RED @ ''1 failed'' @ CTEST_GRY @ '' | ''
        @ CTEST_GRN @ ''2 passed'' @ CTEST_GRY @ '' (3)'' @ NL @ CTEST_RST]"
  by (simp add: summary_ABC)

text \<open>
  C6. A run that reaches its end invokes every test of the registry once, in the order of
  the registry, each on the world the previous one left, whatever the tests return: the
  log of the invocations is the list of the registered names, the world in which
  Reporting starts is the one the last invocation left, and tests that record their own
  invocation leave exactly the registered names, in order, whatever they return.
\<close>

theorem runner_invokes_each_test_once_in_order:
  assumes "length ts < 2 ^ 31" and "malloc_ok e"
  shows "map fst (fst (spec_running ts (spec_started ts w))) = map name ts
       \<and> final_world (ctest__run_tests (Some ts) e w)
           = (snd (spec_running ts (spec_started ts w)))
               \<lparr>out := out (snd (spec_running ts (spec_started ts w)))
                  @ spec_reporting (length ts) (failed_tests (fst (spec_running ts (spec_started ts w)))) e\<rparr>
       \<and> (length nrs < 2 ^ 31 \<longrightarrow>
            user (final_world (ctest__run_tests (Some (map (\<lambda>(n, r). probe n r) nrs)) e wp))
              = user wp @ map fst nrs)"
proof -
  have "user (final_world (ctest__run_tests (Some (map (\<lambda>(n, r). probe n r) nrs)) e wp))
              = user wp @ map fst nrs" if "length nrs < 2 ^ 31"
  proof -
    from that have "length (map (\<lambda>(n, r). probe n r) nrs) < 2 ^ 31" by simp
    from run_tests_Some [OF this assms(2)] show ?thesis
      by (simp add: spec_running_probes spec_started_def fprintf_def del: spec_running.simps)
  qed
  then show ?thesis
    by (simp add: run_tests_Some [OF assms] spec_running_names del: spec_running.simps)
qed

theorem runner_invokes_each_test_once_in_order_witness:
  "length (map (\<lambda>(n, r). probe n r) ex_probes) < 2 ^ 31 \<and> malloc_ok ex_env \<and> length ex_probes < 2 ^ 31
   \<and> map fst (fst (spec_running (map (\<lambda>(n, r). probe n r) ex_probes)
                     (spec_started (map (\<lambda>(n, r). probe n r) ex_probes) ex_log_world)))
       = [''x'', ''y'', ''z'']
   \<and> user (final_world (ctest__run_tests (Some (map (\<lambda>(n, r). probe n r) ex_probes)) ex_env ex_log_world))
       = [''x'', ''y'', ''z'']"
proof -
  have len: "length (map (\<lambda>(n, r). probe n r) ex_probes) < 2 ^ 31" by (simp add: ex_probes_def)
  have len': "length ex_probes < 2 ^ 31" by (simp add: ex_probes_def)
  have mem: "malloc_ok ex_env" by (simp add: ex_env_def)
  have names: "map name (map (\<lambda>(n, r). probe n r) ex_probes) = [''x'', ''y'', ''z'']"
    by (simp add: ex_probes_def probe_def)
  have usr: "user ex_log_world @ map fst ex_probes = [''x'', ''y'', ''z'']"
    by (simp add: ex_probes_def ex_log_world_def)
  note run = runner_invokes_each_test_once_in_order [OF len mem, of ex_log_world ex_probes ex_log_world]
  have log: "map fst (fst (spec_running (map (\<lambda>(n, r). probe n r) ex_probes)
                     (spec_started (map (\<lambda>(n, r). probe n r) ex_probes) ex_log_world)))
       = [''x'', ''y'', ''z'']"
    using run [THEN conjunct1] by (simp only: names)
  have fin: "user (final_world (ctest__run_tests (Some (map (\<lambda>(n, r). probe n r) ex_probes)) ex_env ex_log_world))
       = [''x'', ''y'', ''z'']"
    using run [THEN conjunct2, THEN conjunct2, THEN mp, OF len'] by (simp only: usr)
  from len mem len' log fin show ?thesis by (intro conjI)
qed

text \<open>
  C7. The runner classifies a test by the sign of the returned count, read as a C \<open>int\<close>:
  a return value above zero gives the failed line, with the count, and adds one to the
  number of failed tests; the return value zero gives the passed line and leaves that
  number as it is.
\<close>

theorem positive_return_is_failed_zero_is_passed:
  assumes "fn t (wld s) = (r, w')"
  shows "(0 <s r \<longrightarrow> ADD_run t s
             = \<lparr>fail_test_count = fail_test_count s + 1, failed_assertions = r,
                wld = w'\<lparr>out := out w' @ [Fprintf Stderr FMT_TEST_FAILED [AStr (name t), AInt (sint r)]]\<rparr>\<rparr>)
       \<and> (r = 0 \<longrightarrow> ADD_run t s
             = \<lparr>fail_test_count = fail_test_count s, failed_assertions = 0,
                wld = w'\<lparr>out := out w' @ [Fprintf Stderr FMT_TEST_PASSED [AStr (name t)]]\<rparr>\<rparr>)"
  using assms by (simp add: ADD_run_def fprintf_def)

theorem positive_return_is_failed_zero_is_passed_witness:
  "fn test_C ex_world = (2, ex_world\<lparr>out := diagnostic ''1 == 2'' ''demo.c'' ''test_C'' 11 [] []
                 @ diagnostic ''(1 + 1) == (3)'' ''demo.c'' ''test_C'' 13 ''got %d'' [AInt 2]\<rparr>)
   \<and> 0 <s (2 :: c_int)
   \<and> fail_test_count (ADD_run test_C \<lparr>fail_test_count = 0, failed_assertions = 0, wld = ex_world\<rparr>) = 1
   \<and> fn test_A ex_world = (0, ex_world)
   \<and> ADD_run test_A \<lparr>fail_test_count = 0, failed_assertions = 0, wld = ex_world\<rparr>
       = \<lparr>fail_test_count = 0, failed_assertions = 0,
          wld = \<lparr>out = [Fprintf Stderr FMT_TEST_PASSED [AStr ''A'']], user = ()\<rparr>\<rparr>"
proof -
  let ?s = "\<lparr>fail_test_count = 0, failed_assertions = 0, wld = ex_world\<rparr>"
  have c: "fn test_C (wld ?s) = (2, ex_world\<lparr>out := diagnostic ''1 == 2'' ''demo.c'' ''test_C'' 11 [] []
                 @ diagnostic ''(1 + 1) == (3)'' ''demo.c'' ''test_C'' 13 ''got %d'' [AInt 2]\<rparr>)"
    by (simp add: fn_test_C ex_world_def)
  have a: "fn test_A (wld ?s) = (0, ex_world)" by (simp add: fn_test_A)
  have pos: "0 <s (2 :: c_int)" by (simp add: word_sless_alt)
  show ?thesis
    using positive_return_is_failed_zero_is_passed [OF c] positive_return_is_failed_zero_is_passed [OF a]
      pos c a
    by (simp add: name_tests ex_world_def)
qed

text \<open>
  A non-zero return value that is negative is not classified as failed: the test \<open>N\<close>
  returns \<open>-1\<close>, gets the passed line, is not counted, and the process exits with 0.
\<close>

theorem negative_return_is_classified_passed:
  "fst (fn test_N ex_world) \<noteq> 0
   \<and> ADD_run test_N \<lparr>fail_test_count = 0, failed_assertions = 0, wld = ex_world\<rparr>
       = \<lparr>fail_test_count = 0, failed_assertions = - 1,
          wld = \<lparr>out = [Fprintf Stderr FMT_TEST_PASSED [AStr ''N'']], user = ()\<rparr>\<rparr>
   \<and> fst (CTEST_RUN_TESTS (Some [test_N]) ex_env ex_world) = 0"
proof -
  have len: "length [test_N] < 2 ^ 31" by simp
  have mem: "malloc_ok ex_env" by (simp add: ex_env_def)
  have "failed_tests (fst (spec_running [test_N] w)) = 0" for w :: "unit world"
    by (simp add: fn_test_N name_tests failed_tests_def word_sless_alt)
  then have "fst (CTEST_RUN_TESTS (Some [test_N]) ex_env ex_world) = 0"
    by (simp add: CTEST_RUN_TESTS_def run_tests_Some [OF len mem] del: spec_running.simps)
  then show ?thesis
    by (simp add: ADD_run_def fn_test_N name_tests fprintf_def ex_world_def word_sless_alt)
qed


text \<open>
  C9. \<open>ctest__assert\<close> leaves the state of the program as it was and only appends to the
  output, on the error stream; it has no access to a failure counter. The counter of the
  enclosing test is updated by the macros \<open>CTEST_ASSERT\<close> and \<open>CTEST_ASSERT_MSG\<close>, by 1 when
  the returned boolean is false and by 0 when it is true.
\<close>

theorem ctest__assert_frame:
  "user (snd (ctest__assert r x f t l m va w)) = user w
   \<and> (\<exists>d. out (snd (ctest__assert r x f t l m va w)) = out w @ d \<and> text_on Stdout d = [])
   \<and> CTEST_ASSERT_MSG c m va F L FN (n, w)
       = (n + (if fst (ctest__assert (val c (user w)) (src c) F FN L m va w) then 0 else 1),
          snd (ctest__assert (val c (user w)) (src c) F FN L m va w))
   \<and> CTEST_ASSERT c F L FN (n, w)
       = (n + (if fst (ctest__assert (val c (user w)) (src c) F FN L [] [] w) then 0 else 1),
          snd (ctest__assert (val c (user w)) (src c) F FN L [] [] w))"
  by (simp add: ctest__assert_eq CTEST_ASSERT_as_MSG CTEST_ASSERT_MSG_step diagnostic_def)

text \<open>
  C10. For a test whose return value is zero or negative the runner prints the passed line
  and leaves the number of failed tests as it is; that number changes, by one, only for a
  return value above zero.
\<close>

theorem nonpositive_return_is_passed:
  assumes "fn t (wld s) = (r, w')"
  shows "(sint r \<le> 0 \<longrightarrow> ADD_run t s
             = \<lparr>fail_test_count = fail_test_count s, failed_assertions = r,
                wld = w'\<lparr>out := out w' @ [Fprintf Stderr FMT_TEST_PASSED [AStr (name t)]]\<rparr>\<rparr>)
       \<and> (fail_test_count (ADD_run t s) = fail_test_count s) = (sint r \<le> 0)
       \<and> (0 < sint r \<longrightarrow> fail_test_count (ADD_run t s) = fail_test_count s + 1)"
  using assms by (auto simp add: ADD_run_def fprintf_def word_sless_alt)

theorem nonpositive_return_is_passed_witness:
  "fn test_N ex_world = (- 1, ex_world) \<and> sint (- 1 :: c_int) \<le> 0
   \<and> ADD_run test_N \<lparr>fail_test_count = 0, failed_assertions = 0, wld = ex_world\<rparr>
       = \<lparr>fail_test_count = 0, failed_assertions = - 1,
          wld = \<lparr>out = [Fprintf Stderr FMT_TEST_PASSED [AStr ''N'']], user = ()\<rparr>\<rparr>
   \<and> 0 < sint (1 :: c_int)
   \<and> fail_test_count (ADD_run test_B \<lparr>fail_test_count = 0, failed_assertions = 0, wld = ex_world\<rparr>) = 1"
proof -
  let ?s = "\<lparr>fail_test_count = 0, failed_assertions = 0, wld = ex_world\<rparr>"
  have n: "fn test_N (wld ?s) = (- 1, ex_world)" by (simp add: fn_test_N)
  have b: "fn test_B (wld ?s) = (1, ex_world\<lparr>out := out ex_world @ diagnostic ''1 == 2'' ''demo.c'' ''test_B'' 7 [] []\<rparr>)"
    by (simp add: fn_test_B)
  show ?thesis
    using nonpositive_return_is_passed [OF n] nonpositive_return_is_passed [OF b] n
    by (simp add: name_tests ex_world_def)
qed

end
